theory Spec2Isabelle
  imports Complex_Main "HOL-Library.Word"
begin

section \<open>Data of the glue layer\<close>

text \<open>
  The embedding follows \<^verbatim>\<open>vxLuaGlue.c\<close>. An \<^verbatim>\<open>unsigned int\<close>, an \<^verbatim>\<open>int\<close> and a
  pointer are 32-bit words, as on the x86 and MIPS targets the file's header names.
  A \<^verbatim>\<open>lua_Number\<close> (a C double) is modelled by its real value; only finite numbers
  are modelled.
\<close>

type_synonym word32 = "32 word"
type_synonym addr = "32 word"
type_synonym lua_Number = real
type_synonym memory = "addr \<Rightarrow> word32"

text \<open>
  A value on the Lua stack, by its dynamic type. \<open>LNone\<close> is what an index beyond the
  top of the stack denotes (\<^verbatim>\<open>LUA_TNONE\<close>). \<open>LFunction\<close> is a Lua function,
  \<open>LCFunction\<close> a C function; \<open>LUserdata\<close> is a full userdata.
\<close>

datatype lua_value =
    LNone
  | LNil
  | LBoolean bool
  | LNumber lua_Number
  | LString string
  | LTable
  | LFunction
  | LCFunction
  | LUserdata
  | LLightUserdata
  | LThread

text \<open>The stack a registered C function receives: index 1 is the head of the list.\<close>

type_synonym lua_State = "lua_value list"

text \<open>
  Modelled from the spec: the category tag of a symbol ("an opaque native address plus a
  category tag distinguishing executable-code symbols from data symbols"). The header
  \<^verbatim>\<open>a_out.h\<close> that declares the values of \<^verbatim>\<open>SYM_TYPE\<close> is not among the sources;
  \<open>N_TEXT\<close> is executable code, \<open>N_DATA\<close> and \<open>N_BSS\<close> are data (the two the comments of
  \<^verbatim>\<open>l_vxGet\<close> name).
\<close>

datatype SYM_TYPE = N_TEXT | N_DATA | N_BSS

text \<open>
  What lies outside the file and is taken as a parameter:
  \<^item> \<open>sysSymTbl\<close>: the system symbol table as \<^verbatim>\<open>symFindByName\<close> reads it;
  \<^item> \<open>luaO_str2d\<close>: Lua's conversion of a string to a number (\<open>None\<close> when the string
    is not a numeral), \<open>lua_number2str\<close>: its conversion of a number to a string;
  \<^item> \<open>str_addr\<close>: the address of the storage of a Lua string;
  \<^item> \<open>native_call\<close>: what calling the code at an address with fifteen word arguments
    returns and does to memory;
  \<^item> \<open>d2i_undefined\<close>, \<open>d2u_undefined\<close>: what the target yields for a conversion of a
    double to \<^verbatim>\<open>int32_t\<close> or \<^verbatim>\<open>unsigned int\<close> that C leaves undefined (the
    truncated value is out of range);
  \<^item> \<open>sal_readline\<close>: the line the console returns for a prompt.
\<close>

record env =
  sysSymTbl :: "string \<rightharpoonup> (addr \<times> SYM_TYPE)"
  luaO_str2d :: "string \<Rightarrow> lua_Number option"
  lua_number2str :: "lua_Number \<Rightarrow> string"
  str_addr :: "string \<Rightarrow> addr"
  native_call :: "addr \<Rightarrow> word32 list \<Rightarrow> memory \<Rightarrow> word32 \<times> memory"
  d2i_undefined :: "lua_Number \<Rightarrow> word32"
  d2u_undefined :: "lua_Number \<Rightarrow> word32"
  sal_readline :: "string \<Rightarrow> string"

text \<open>What a call of one of the registered functions does, in order.\<close>

datatype event =
    SymFind string
  | Invoke addr "word32 list"
  | MemRead addr
  | MemWrite addr word32
  | Printf string
  | ReadLine string

text \<open>
  Where the C code leaves defined behaviour: a write past the end of \<^verbatim>\<open>arg[15]\<close>, a
  copy past the end of a 128-byte character buffer, \<^verbatim>\<open>strcat\<close> from a null pointer, a
  read of a variable that was never assigned.
\<close>

datatype fault = ArgOverflow | NameOverflow | NullPointer | UninitRead

text \<open>
  The result of a registered function: the count it returns to Lua, the values it
  pushed, what it did, and the memory it leaves.
\<close>

record outcome =
  retc :: nat
  pushed :: "lua_value list"
  events :: "event list"
  mem_after :: memory

section \<open>The Lua C API, as the file uses it\<close>

text \<open>
  The Lua library is not part of the repository. The functions the file calls are
  given here by what the Lua 5.1 reference manual says they return, on the stack of
  the running C function. Two of them coerce: \<^verbatim>\<open>lua_isnumber\<close> holds for a number
  and for a string convertible to a number, \<^verbatim>\<open>lua_isstring\<close> for a string and for
  a number.
\<close>

definition lua_gettop :: "lua_State \<Rightarrow> nat" where
  "lua_gettop L = length L"

definition index2adr :: "lua_State \<Rightarrow> nat \<Rightarrow> lua_value" where
  "index2adr L idx = (if 1 \<le> idx \<and> idx \<le> length L then L ! (idx - 1) else LNone)"

definition lua_isnil :: "lua_State \<Rightarrow> nat \<Rightarrow> bool" where
  "lua_isnil L idx = (index2adr L idx = LNil)"

definition lua_isboolean :: "lua_State \<Rightarrow> nat \<Rightarrow> bool" where
  "lua_isboolean L idx = (case index2adr L idx of LBoolean b \<Rightarrow> True | _ \<Rightarrow> False)"

definition lua_toboolean :: "lua_State \<Rightarrow> nat \<Rightarrow> bool" where
  "lua_toboolean L idx =
     (case index2adr L idx of LNone \<Rightarrow> False | LNil \<Rightarrow> False | LBoolean b \<Rightarrow> b | _ \<Rightarrow> True)"

text \<open>A number, or a string that converts to a number.\<close>

definition lua_isnumber :: "env \<Rightarrow> lua_State \<Rightarrow> nat \<Rightarrow> bool" where
  "lua_isnumber E L idx =
     (case index2adr L idx of
        LNumber x \<Rightarrow> True
      | LString s \<Rightarrow> luaO_str2d E s \<noteq> None
      | _ \<Rightarrow> False)"

definition lua_tonumber :: "env \<Rightarrow> lua_State \<Rightarrow> nat \<Rightarrow> lua_Number" where
  "lua_tonumber E L idx =
     (case index2adr L idx of
        LNumber x \<Rightarrow> x
      | LString s \<Rightarrow> (case luaO_str2d E s of Some x \<Rightarrow> x | None \<Rightarrow> 0)
      | _ \<Rightarrow> 0)"

text \<open>A string, or a number (which always converts to a string).\<close>

definition lua_isstring :: "lua_State \<Rightarrow> nat \<Rightarrow> bool" where
  "lua_isstring L idx =
     (case index2adr L idx of LString s \<Rightarrow> True | LNumber x \<Rightarrow> True | _ \<Rightarrow> False)"

text \<open>\<open>None\<close> is the null pointer \<^verbatim>\<open>lua_tostring\<close> returns for any other value.\<close>

definition lua_tostring :: "env \<Rightarrow> lua_State \<Rightarrow> nat \<Rightarrow> string option" where
  "lua_tostring E L idx =
     (case index2adr L idx of
        LString s \<Rightarrow> Some s
      | LNumber x \<Rightarrow> Some (lua_number2str E x)
      | _ \<Rightarrow> None)"

definition lua_istable :: "lua_State \<Rightarrow> nat \<Rightarrow> bool" where
  "lua_istable L idx = (index2adr L idx = LTable)"

definition lua_isfunction :: "lua_State \<Rightarrow> nat \<Rightarrow> bool" where
  "lua_isfunction L idx = (index2adr L idx = LFunction \<or> index2adr L idx = LCFunction)"

definition lua_iscfunction :: "lua_State \<Rightarrow> nat \<Rightarrow> bool" where
  "lua_iscfunction L idx = (index2adr L idx = LCFunction)"

definition lua_isuserdata :: "lua_State \<Rightarrow> nat \<Rightarrow> bool" where
  "lua_isuserdata L idx = (index2adr L idx = LUserdata \<or> index2adr L idx = LLightUserdata)"

definition lua_islightuserdata :: "lua_State \<Rightarrow> nat \<Rightarrow> bool" where
  "lua_islightuserdata L idx = (index2adr L idx = LLightUserdata)"

section \<open>C strings, buffers and conversions\<close>

text \<open>What C reads of a Lua string through its \<^verbatim>\<open>char *\<close>: the bytes before the first NUL.\<close>

definition c_str :: "string \<Rightarrow> string" where
  "c_str s = takeWhile (\<lambda>c. c \<noteq> CHR 0x00) s"

text \<open>
  \<^verbatim>\<open>strcpy\<close> and \<^verbatim>\<open>strcat\<close> into a buffer of \<open>cap\<close> bytes: the text and its
  terminating NUL must fit, and nothing in the code checks that they do.
\<close>

definition strcpy :: "nat \<Rightarrow> string \<Rightarrow> fault + string" where
  "strcpy cap src = (if length (c_str src) < cap then Inr (c_str src) else Inl NameOverflow)"

definition strcat :: "nat \<Rightarrow> string \<Rightarrow> string option \<Rightarrow> fault + string" where
  "strcat cap dst src =
     (case src of
        None \<Rightarrow> Inl NullPointer
      | Some s \<Rightarrow>
          (if length dst + length (c_str s) < cap then Inr (dst @ c_str s)
           else Inl NameOverflow))"

text \<open>\<^verbatim>\<open>strncpy(prompt, pArg, 128); prompt[127] = '\0';\<close>\<close>

definition strncpy_prompt :: "string \<Rightarrow> string" where
  "strncpy_prompt pArg = take 127 (take 128 (c_str pArg))"

text \<open>A double converted to an integer type: the fraction is discarded.\<close>

definition c_trunc :: "lua_Number \<Rightarrow> int" where
  "c_trunc x = (if x < 0 then - \<lfloor>- x\<rfloor> else \<lfloor>x\<rfloor>)"

definition int32_of_number :: "env \<Rightarrow> lua_Number \<Rightarrow> word32" where
  "int32_of_number E x =
     (if - (2 ^ 31) - 1 < x \<and> x < 2 ^ 31 then word_of_int (c_trunc x)
      else d2i_undefined E x)"

definition uint_of_number :: "env \<Rightarrow> lua_Number \<Rightarrow> word32" where
  "uint_of_number E x =
     (if - 1 < x \<and> x < 2 ^ 32 then word_of_int (c_trunc x)
      else d2u_undefined E x)"

text \<open>\<^verbatim>\<open>lua_pushnumber\<close> of an \<^verbatim>\<open>int\<close> and of an \<^verbatim>\<open>unsigned int\<close>.\<close>

definition number_of_int :: "word32 \<Rightarrow> lua_value" where
  "number_of_int w = LNumber (real_of_int (sint w))"

definition number_of_uint :: "word32 \<Rightarrow> lua_value" where
  "number_of_uint w = LNumber (real (unat w))"

section \<open>\<^verbatim>\<open>l_ExecuteLuaCommand\<close>, registered as \<^verbatim>\<open>vxDo\<close>\<close>

text \<open>The initial contents of \<^verbatim>\<open>symbol_name\<close>: the text \<^verbatim>\<open>"no function"\<close>, quotes included.\<close>

definition no_function :: string where
  "no_function = CHR 0x22 # ''no function'' @ [CHR 0x22]"

definition function_not_found :: "string \<Rightarrow> string" where
  "function_not_found symbol_name =
     ''Error: Function '' @ symbol_name @ '' does not exist!'' @ [CHR 0x0A]"

text \<open>\<^verbatim>\<open>arg[k] = v\<close> on the fifteen-slot array.\<close>

definition store_arg :: "word32 list \<Rightarrow> nat \<Rightarrow> word32 \<Rightarrow> fault + word32 list" where
  "store_arg arg k v = (if k < length arg then Inr (arg[k := v]) else Inl ArgOverflow)"

text \<open>The chain of type tests of the argument loop, in the order of the source.\<close>

definition marshal :: "env \<Rightarrow> lua_State \<Rightarrow> nat \<Rightarrow> word32" where
  "marshal E L i =
     (if lua_isnil L i then 0
      else if lua_isboolean L i then (if lua_toboolean L i then 1 else 0)
      else if lua_isnumber E L i then int32_of_number E (lua_tonumber E L i)
      else if lua_isstring L i then
        (case lua_tostring E L i of Some s \<Rightarrow> str_addr E s | None \<Rightarrow> 0)
      else if lua_istable L i then 0
      else if lua_isfunction L i then 0
      else if lua_iscfunction L i then 0
      else if lua_isuserdata L i then 0
      else if lua_islightuserdata L i then 0
      else 0)"

text \<open>\<^verbatim>\<open>for(i=2; i<=nArgs; i++)\<close>\<close>

function process_args ::
  "env \<Rightarrow> lua_State \<Rightarrow> nat \<Rightarrow> nat \<Rightarrow> word32 list \<Rightarrow> fault + word32 list" where
  "process_args E L i nArgs arg =
     (if i \<le> nArgs then
        (case store_arg arg (i - 2) (marshal E L i) of
           Inl f \<Rightarrow> Inl f
         | Inr arg' \<Rightarrow> process_args E L (i + 1) nArgs arg')
      else Inr arg)"
  by pat_completeness auto
termination
  by (relation "measure (\<lambda>(E, L, i, nArgs, arg). nArgs + 1 - i)") auto

definition l_ExecuteLuaCommand :: "env \<Rightarrow> memory \<Rightarrow> lua_State \<Rightarrow> fault + outcome" where
  "l_ExecuteLuaCommand E m L =
     (let nArgs = (if lua_gettop L > 15 then 15 else lua_gettop L);
          symName = (if nArgs \<ge> 1 \<and> lua_isstring L 1 then lua_tostring E L 1 else None)
      in case process_args E L 2 nArgs (replicate 15 0) of
           Inl f \<Rightarrow> Inl f
         | Inr arg \<Rightarrow>
             (case (case symName of None \<Rightarrow> Inr no_function | Some s \<Rightarrow> strcpy 128 s) of
                Inl f \<Rightarrow> Inl f
              | Inr symbol_name \<Rightarrow>
                  (case sysSymTbl E symbol_name of
                     Some (symbol_value, symbol_type) \<Rightarrow>
                       (let args = map (\<lambda>k. arg ! k) [0..<15];
                            (function_status, m') = native_call E symbol_value args m
                        in Inr \<lparr> retc = 1,
                                 pushed = [number_of_int function_status],
                                 events = [SymFind symbol_name, Invoke symbol_value args],
                                 mem_after = m' \<rparr>)
                   | None \<Rightarrow>
                       Inr \<lparr> retc = 0,
                             pushed = [],
                             events = [SymFind symbol_name,
                                       Printf (function_not_found symbol_name)],
                             mem_after = m \<rparr>)))"

section \<open>\<^verbatim>\<open>l_vxGet\<close> and \<^verbatim>\<open>l_vxSet\<close>\<close>

definition no_global_variable :: string where
  "no_global_variable = CHR 0x22 # ''no global variable.'' @ [CHR 0x22]"

definition symbol_not_found :: "string \<Rightarrow> string" where
  "symbol_not_found symbol_name =
     ''Error: Symbol '' @ symbol_name @ '' does not exist!'' @ [CHR 0x0A]"

text \<open>
  \<^verbatim>\<open>strcpy( symbol_name, "_" ); strcat( symbol_name, symName );\<close> on the 128-byte
  buffer.
\<close>

definition with_underscore :: "string option \<Rightarrow> fault + string" where
  "with_underscore symName =
     (case strcpy 128 ''_'' of
        Inl f \<Rightarrow> Inl f
      | Inr symbol_name \<Rightarrow> strcat 128 symbol_name symName)"

definition l_vxGet :: "env \<Rightarrow> memory \<Rightarrow> lua_State \<Rightarrow> fault + outcome" where
  "l_vxGet E m L =
     (let nArgs = lua_gettop L;
          isname = (nArgs \<ge> 1 \<and> lua_isstring L 1);
          symName = (if isname then lua_tostring E L 1 else None);
          error = (if isname then False else True)
      in if \<not> error then
           (case (case symName of None \<Rightarrow> Inr no_global_variable | Some s \<Rightarrow> strcpy 128 s) of
              Inl f \<Rightarrow> Inl f
            | Inr symbol_name \<Rightarrow>
                (case sysSymTbl E symbol_name of
                   Some (symbol_value, symbol_type) \<Rightarrow>
                     Inr \<lparr> retc = 1,
                           pushed = [number_of_uint (m symbol_value)],
                           events = [SymFind symbol_name, MemRead symbol_value],
                           mem_after = m \<rparr>
                 | None \<Rightarrow>
                     (case with_underscore symName of
                        Inl f \<Rightarrow> Inl f
                      | Inr symbol_name2 \<Rightarrow>
                          (case sysSymTbl E symbol_name2 of
                             Some (symbol_value, symbol_type) \<Rightarrow>
                               Inr \<lparr> retc = 1,
                                     pushed = [number_of_uint (m symbol_value)],
                                     events = [SymFind symbol_name, SymFind symbol_name2,
                                               MemRead symbol_value],
                                     mem_after = m \<rparr>
                           | None \<Rightarrow>
                               Inr \<lparr> retc = 0,
                                     pushed = [],
                                     events = [SymFind symbol_name, SymFind symbol_name2,
                                               Printf (symbol_not_found symbol_name2)],
                                     mem_after = m \<rparr>))))
         else Inr \<lparr> retc = 0, pushed = [], events = [], mem_after = m \<rparr>)"

definition l_vxSet :: "env \<Rightarrow> memory \<Rightarrow> lua_State \<Rightarrow> fault + outcome" where
  "l_vxSet E m L =
     (let nArgs = lua_gettop L;
          isname = (nArgs \<ge> 1 \<and> lua_isstring L 1);
          symName = (if isname then lua_tostring E L 1 else None);
          error = (if nArgs < 2 then True else if isname then False else True)
      in if \<not> error then
           (case (case symName of None \<Rightarrow> Inr no_global_variable | Some s \<Rightarrow> strcpy 128 s) of
              Inl f \<Rightarrow> Inl f
            | Inr symbol_name \<Rightarrow>
                (case sysSymTbl E symbol_name of
                   Some (symbol_value, symbol_type) \<Rightarrow>
                     (let v = uint_of_number E (lua_tonumber E L 2)
                      in Inr \<lparr> retc = 0,
                               pushed = [],
                               events = [SymFind symbol_name, MemWrite symbol_value v],
                               mem_after = m(symbol_value := v) \<rparr>)
                 | None \<Rightarrow>
                     (case with_underscore symName of
                        Inl f \<Rightarrow> Inl f
                      | Inr symbol_name2 \<Rightarrow>
                          (case sysSymTbl E symbol_name2 of
                             Some (symbol_value, symbol_type) \<Rightarrow>
                               (let v = uint_of_number E (lua_tonumber E L 2)
                                in Inr \<lparr> retc = 0,
                                         pushed = [],
                                         events = [SymFind symbol_name, SymFind symbol_name2,
                                                   MemWrite symbol_value v],
                                         mem_after = m(symbol_value := v) \<rparr>)
                           | None \<Rightarrow>
                               Inr \<lparr> retc = 0,
                                     pushed = [],
                                     events = [SymFind symbol_name, SymFind symbol_name2,
                                               Printf (symbol_not_found symbol_name2)],
                                     mem_after = m \<rparr>))))
         else Inr \<lparr> retc = 0, pushed = [], events = [], mem_after = m \<rparr>)"

section \<open>\<^verbatim>\<open>l_vxReadLine\<close>\<close>

text \<open>
  \<^verbatim>\<open>error\<close> is assigned on two of the three paths only: with a first argument that is
  not a string it is read unassigned (\<open>None\<close> here).
\<close>

definition l_vxReadLine :: "env \<Rightarrow> memory \<Rightarrow> lua_State \<Rightarrow> fault + outcome" where
  "l_vxReadLine E m L =
     (let nArgs = lua_gettop L;
          pArg = (if nArgs \<ge> 1 \<and> lua_isstring L 1 then lua_tostring E L 1 else None);
          error = (if nArgs \<ge> 1 then (if lua_isstring L 1 then Some False else None)
                   else Some True)
      in case error of
           None \<Rightarrow> Inl UninitRead
         | Some True \<Rightarrow> Inr \<lparr> retc = 0, pushed = [], events = [], mem_after = m \<rparr>
         | Some False \<Rightarrow>
             (case pArg of
                None \<Rightarrow> Inl NullPointer
              | Some p \<Rightarrow>
                  (let prompt = strncpy_prompt p;
                       buf = sal_readline E prompt
                   in Inr \<lparr> retc = 1,
                            pushed = [LString buf],
                            events = [ReadLine prompt],
                            mem_after = m \<rparr>)))"

section \<open>Reading outcomes\<close>

text \<open>
  The fifteen words the loop leaves in \<^verbatim>\<open>arg\<close>, in closed form: slot \<open>k\<close> holds
  the marshalled stack entry \<open>k + 2\<close> when that index is within the clipped argument
  count, and the zero of the clearing loop otherwise. \<open>process_args_slots\<close> below
  proves that the loop computes exactly this list.
\<close>

definition slots_of :: "env \<Rightarrow> lua_State \<Rightarrow> word32 list" where
  "slots_of E L =
     map (\<lambda>k. if k + 2 \<le> min (length L) 15 then marshal E L (k + 2) else 0) [0..<15]"

definition events_of :: "fault + outcome \<Rightarrow> event list" where
  "events_of r = (case r of Inl f \<Rightarrow> [] | Inr out \<Rightarrow> events out)"

text \<open>The names looked up in the symbol table, and the diagnostics printed, in order.\<close>

fun sym_finds :: "event list \<Rightarrow> string list" where
  "sym_finds [] = []"
| "sym_finds (SymFind n # es) = n # sym_finds es"
| "sym_finds (e # es) = sym_finds es"

fun printfs :: "event list \<Rightarrow> string list" where
  "printfs [] = []"
| "printfs (Printf t # es) = t # printfs es"
| "printfs (e # es) = printfs es"

text \<open>Whether anything native was touched: a call, a read or a write.\<close>

fun touches_native :: "event list \<Rightarrow> bool" where
  "touches_native [] = False"
| "touches_native (Invoke a args # es) = True"
| "touches_native (MemRead a # es) = True"
| "touches_native (MemWrite a v # es) = True"
| "touches_native (e # es) = touches_native es"

section \<open>A small target for the examples\<close>

text \<open>
  A symbol table with the test symbols of the source file: a function and a variable
  under their plain names, and one of each under the name with a leading underscore.
  The native code returns the sum of its fifteen arguments; the string conversions
  are those of Lua on the two texts the examples use.
\<close>

definition test_symtab :: "string \<rightharpoonup> (addr \<times> SYM_TYPE)" where
  "test_symtab =
     [''LuaDecimalTest'' \<mapsto> (0x1000, N_TEXT),
      ''_LuaStringTest'' \<mapsto> (0x1100, N_TEXT),
      ''LuaTestVariable'' \<mapsto> (0x2000, N_BSS),
      ''_counter'' \<mapsto> (0x2004, N_DATA)]"

definition test_env :: env where
  "test_env =
     \<lparr> sysSymTbl = test_symtab,
       luaO_str2d = (\<lambda>s. if s = ''10'' then Some 10 else None),
       lua_number2str = (\<lambda>x. if x = 5 then ''5'' else ''?''),
       str_addr = (\<lambda>s. 0x8000 + word_of_nat (length s)),
       native_call = (\<lambda>a args m. (sum_list args, m)),
       d2i_undefined = (\<lambda>x. 0x80000000),
       d2u_undefined = (\<lambda>x. 0),
       sal_readline = (\<lambda>p. ''ok'') \<rparr>"

definition zero_mem :: memory where
  "zero_mem = (\<lambda>a. 0)"

section \<open>The argument loop\<close>

lemma store_arg_in_range: "k < length arg \<Longrightarrow> store_arg arg k v = Inr (arg[k := v])"
  by (simp add: store_arg_def)

lemma process_args_closed:
  "2 \<le> i \<Longrightarrow> nArgs \<le> 15 \<Longrightarrow> length arg = 15 \<Longrightarrow>
   process_args E L i nArgs arg =
     Inr (map (\<lambda>k. if i \<le> k + 2 \<and> k + 2 \<le> nArgs then marshal E L (k + 2) else arg ! k) [0..<15])"
proof (induction E L i nArgs arg rule: process_args.induct)
  case (1 E L i nArgs arg)
  show ?case
  proof (cases "i \<le> nArgs")
    case False
    then have "map (\<lambda>k. if i \<le> k + 2 \<and> k + 2 \<le> nArgs then marshal E L (k + 2) else arg ! k) [0..<15]
             = map (\<lambda>k. arg ! k) [0..<length arg]"
      using False "1.prems" by auto
    also have "\<dots> = arg" by (rule map_nth)
    finally show ?thesis using False by (subst process_args.simps) simp
  next
    case True
    let ?v = "marshal E L i"
    let ?arg' = "arg[i - 2 := ?v]"
    have in_range: "i - 2 < length arg" using True "1.prems" by simp
    have st: "store_arg arg (i - 2) ?v = Inr ?arg'"
      using in_range by (rule store_arg_in_range)
    have ih: "process_args E L (i + 1) nArgs ?arg' =
      Inr (map (\<lambda>k. if i + 1 \<le> k + 2 \<and> k + 2 \<le> nArgs then marshal E L (k + 2) else ?arg' ! k) [0..<15])"
      using "1.IH"[OF True st] "1.prems" by simp
    have "map (\<lambda>k. if i + 1 \<le> k + 2 \<and> k + 2 \<le> nArgs then marshal E L (k + 2) else ?arg' ! k) [0..<15]
        = map (\<lambda>k. if i \<le> k + 2 \<and> k + 2 \<le> nArgs then marshal E L (k + 2) else arg ! k) [0..<15]"
    proof (rule map_cong[OF refl])
      fix k assume "k \<in> set [0..<15]"
      then have k: "k < length arg" using "1.prems" by simp
      show "(if i + 1 \<le> k + 2 \<and> k + 2 \<le> nArgs then marshal E L (k + 2) else ?arg' ! k)
          = (if i \<le> k + 2 \<and> k + 2 \<le> nArgs then marshal E L (k + 2) else arg ! k)"
      proof (cases "k = i - 2")
        case True
        then have "k + 2 = i" using "1.prems" by simp
        then show ?thesis using k True \<open>i \<le> nArgs\<close> by simp
      next
        case False
        then have "k + 2 \<noteq> i" by auto
        then show ?thesis using False k by auto
      qed
    qed
    then show ?thesis using True st ih by (subst process_args.simps) simp
  qed
qed

lemma process_args_slots:
  "process_args E L 2 (if lua_gettop L > 15 then 15 else lua_gettop L) (replicate 15 0)
     = Inr (slots_of E L)"
proof -
  let ?n = "if lua_gettop L > 15 then 15 else lua_gettop L"
  have n: "?n = min (length L) 15" by (simp add: lua_gettop_def)
  have "process_args E L 2 ?n (replicate 15 0) =
     Inr (map (\<lambda>k. if 2 \<le> k + 2 \<and> k + 2 \<le> ?n then marshal E L (k + 2) else replicate 15 0 ! k) [0..<15])"
    by (rule process_args_closed) simp_all
  also have "map (\<lambda>k. if 2 \<le> k + 2 \<and> k + 2 \<le> ?n then marshal E L (k + 2) else replicate 15 0 ! k) [0..<15]
      = slots_of E L"
    unfolding slots_of_def n by (rule map_cong[OF refl]) simp
  finally show ?thesis .
qed

lemma length_slots_of: "length (slots_of E L) = 15"
  by (simp add: slots_of_def)

lemma slots_of_read: "map (\<lambda>k. slots_of E L ! k) [0..<15] = slots_of E L"
  using map_nth[of "slots_of E L"] by (simp add: length_slots_of)

section \<open>The call path as a whole\<close>

text \<open>
  \<^verbatim>\<open>l_ExecuteLuaCommand\<close> with the loop replaced by its closed form: the name is
  copied into the buffer, looked up once, and the address found is called with the
  fifteen slots.
\<close>

lemma l_ExecuteLuaCommand_slots:
  "l_ExecuteLuaCommand E m L =
     (case (case (if 1 \<le> length L \<and> lua_isstring L 1 then lua_tostring E L 1 else None) of
              None \<Rightarrow> Inr no_function | Some s \<Rightarrow> strcpy 128 s) of
        Inl f \<Rightarrow> Inl f
      | Inr symbol_name \<Rightarrow>
          (case sysSymTbl E symbol_name of
             Some (symbol_value, symbol_type) \<Rightarrow>
               Inr \<lparr> retc = 1,
                     pushed = [number_of_int (fst (native_call E symbol_value (slots_of E L) m))],
                     events = [SymFind symbol_name, Invoke symbol_value (slots_of E L)],
                     mem_after = snd (native_call E symbol_value (slots_of E L) m) \<rparr>
           | None \<Rightarrow>
               Inr \<lparr> retc = 0, pushed = [],
                     events = [SymFind symbol_name, Printf (function_not_found symbol_name)],
                     mem_after = m \<rparr>))"
proof -
  have n1: "(1 \<le> (if lua_gettop L > 15 then 15 else lua_gettop L)) = (1 \<le> length L)"
    by (simp add: lua_gettop_def)
  show ?thesis
    unfolding l_ExecuteLuaCommand_def Let_def process_args_slots n1
    by (simp add: slots_of_read split_beta split: sum.splits option.splits)
qed

lemma name_of_string:
  "(if 1 \<le> length (LString n # rest) \<and> lua_isstring (LString n # rest) 1
    then lua_tostring E (LString n # rest) 1 else None) = Some n"
  by (simp add: lua_isstring_def lua_tostring_def index2adr_def)

lemma vxDo_found:
  assumes "length (c_str n) < 128" and "sysSymTbl E (c_str n) = Some (a, t)"
  shows "l_ExecuteLuaCommand E m (LString n # rest) =
     Inr \<lparr> retc = 1,
           pushed = [number_of_int (fst (native_call E a (slots_of E (LString n # rest)) m))],
           events = [SymFind (c_str n), Invoke a (slots_of E (LString n # rest))],
           mem_after = snd (native_call E a (slots_of E (LString n # rest)) m) \<rparr>"
  unfolding l_ExecuteLuaCommand_slots name_of_string using assms by (simp add: strcpy_def)

lemma vxDo_not_found:
  assumes "length (c_str n) < 128" and "sysSymTbl E (c_str n) = None"
  shows "l_ExecuteLuaCommand E m (LString n # rest) =
     Inr \<lparr> retc = 0, pushed = [],
           events = [SymFind (c_str n), Printf (function_not_found (c_str n))],
           mem_after = m \<rparr>"
  unfolding l_ExecuteLuaCommand_slots name_of_string using assms by (simp add: strcpy_def)

text \<open>
  With at most 14 arguments after the name, the slots are the marshalled arguments in
  order, followed by zeros up to slot 14.
\<close>

lemma slots_of_up_to_14:
  assumes "length args \<le> 14"
  shows "slots_of E (nm # args) =
           map (\<lambda>j. marshal E (nm # args) (j + 2)) [0..<length args]
           @ replicate (15 - length args) 0"
proof (rule nth_equalityI)
  show "length (slots_of E (nm # args)) =
        length (map (\<lambda>j. marshal E (nm # args) (j + 2)) [0..<length args]
                @ replicate (15 - length args) 0)"
    using assms by (simp add: length_slots_of)
next
  fix k assume "k < length (slots_of E (nm # args))"
  then have k: "k < 15" by (simp add: length_slots_of)
  show "slots_of E (nm # args) ! k =
        (map (\<lambda>j. marshal E (nm # args) (j + 2)) [0..<length args]
         @ replicate (15 - length args) 0) ! k"
    using k assms by (simp add: slots_of_def nth_append)
qed

lemma index2adr_Cons_take:
  "i \<le> 15 \<Longrightarrow> index2adr (x # take 15 xs) i = index2adr (x # xs) i"
  by (cases i) (auto simp: index2adr_def nth_Cons split: nat.splits)

lemma marshal_index:
  "index2adr L i = index2adr L' i \<Longrightarrow> marshal E L i = marshal E L' i"
  by (simp add: marshal_def lua_isnil_def lua_isboolean_def lua_toboolean_def lua_isnumber_def
      lua_tonumber_def lua_isstring_def lua_tostring_def lua_istable_def lua_isfunction_def
      lua_iscfunction_def lua_isuserdata_def lua_islightuserdata_def)

lemma slots_of_clip:
  assumes "15 < length xs"
  shows "slots_of E (x # take 15 xs) = slots_of E (x # xs)"
  unfolding slots_of_def
proof (rule map_cong[OF refl])
  fix k assume "k \<in> set [0..<15]"
  then have k: "k < 15" by simp
  have "k + 2 \<le> 15 \<Longrightarrow> marshal E (x # take 15 xs) (k + 2) = marshal E (x # xs) (k + 2)"
    by (rule marshal_index) (simp add: index2adr_Cons_take)
  then show "(if k + 2 \<le> min (length (x # take 15 xs)) 15 then marshal E (x # take 15 xs) (k + 2) else 0)
           = (if k + 2 \<le> min (length (x # xs)) 15 then marshal E (x # xs) (k + 2) else 0)"
    using assms by simp
qed

lemma first_index_clip:
  "lua_isstring (x # take 15 xs) 1 = lua_isstring (x # xs) 1"
  "lua_tostring E (x # take 15 xs) 1 = lua_tostring E (x # xs) 1"
  by (simp_all add: lua_isstring_def lua_tostring_def index2adr_def)

lemma vxDo_clip:
  assumes "15 < length xs"
  shows "l_ExecuteLuaCommand E m (x # xs) = l_ExecuteLuaCommand E m (x # take 15 xs)"
  unfolding l_ExecuteLuaCommand_slots slots_of_clip[OF assms] first_index_clip by simp

lemma vxDo_no_ArgOverflow: "l_ExecuteLuaCommand E m L \<noteq> Inl ArgOverflow"
  unfolding l_ExecuteLuaCommand_slots
  by (auto simp: strcpy_def split: option.splits sum.splits if_splits)

section \<open>Marshalling and conversions\<close>

lemmas lua_api =
  lua_gettop_def index2adr_def lua_isnil_def lua_isboolean_def lua_toboolean_def lua_isnumber_def
  lua_tonumber_def lua_isstring_def lua_tostring_def lua_istable_def lua_isfunction_def
  lua_iscfunction_def lua_isuserdata_def lua_islightuserdata_def

text \<open>What the chain of type tests stores for each dynamic type.\<close>

lemma marshal_by_type:
  "index2adr L i = LNil \<Longrightarrow> marshal E L i = 0"
  "index2adr L i = LBoolean b \<Longrightarrow> marshal E L i = (if b then 1 else 0)"
  "index2adr L i = LNumber x \<Longrightarrow> marshal E L i = int32_of_number E x"
  "index2adr L i = LString s \<Longrightarrow>
     marshal E L i = (case luaO_str2d E s of Some x \<Rightarrow> int32_of_number E x | None \<Rightarrow> str_addr E s)"
  "index2adr L i = LTable \<Longrightarrow> marshal E L i = 0"
  "index2adr L i = LFunction \<Longrightarrow> marshal E L i = 0"
  "index2adr L i = LCFunction \<Longrightarrow> marshal E L i = 0"
  "index2adr L i = LUserdata \<Longrightarrow> marshal E L i = 0"
  "index2adr L i = LLightUserdata \<Longrightarrow> marshal E L i = 0"
  "index2adr L i = LThread \<Longrightarrow> marshal E L i = 0"
  "index2adr L i = LNone \<Longrightarrow> marshal E L i = 0"
  by (simp_all add: marshal_def lua_isnil_def lua_isboolean_def lua_toboolean_def lua_isnumber_def
      lua_tonumber_def lua_isstring_def lua_tostring_def lua_istable_def lua_isfunction_def
      lua_iscfunction_def lua_isuserdata_def lua_islightuserdata_def split: option.splits)

text \<open>Within the range of the target type the conversions discard the fraction.\<close>

lemma c_trunc_int32_range:
  assumes "- (2 ^ 31) - 1 < x" and "x < 2 ^ 31"
  shows "- (2 ^ 31) \<le> c_trunc x \<and> c_trunc x < 2 ^ 31"
proof (cases "x < 0")
  case True
  define k where "k = \<lfloor>- x\<rfloor>"
  have "- x < 2 ^ 31 + 1" using assms(1) by simp
  then have a: "k < 2 ^ 31 + 1" by (simp add: k_def floor_less_iff)
  have b: "0 \<le> k" using True by (simp add: k_def)
  have "c_trunc x = - k" using True by (simp add: c_trunc_def k_def)
  with a b show ?thesis by simp
next
  case False
  then have "0 \<le> \<lfloor>x\<rfloor>" by simp
  moreover have "\<lfloor>x\<rfloor> < 2 ^ 31" using assms(2) by (simp add: floor_less_iff)
  ultimately show ?thesis using False by (simp add: c_trunc_def)
qed

lemma int32_of_number_in_range:
  assumes "- (2 ^ 31) - 1 < x" and "x < 2 ^ 31"
  shows "sint (int32_of_number E x) = c_trunc x"
proof -
  have "sint (word_of_int (c_trunc x) :: 32 word) = c_trunc x"
    using c_trunc_int32_range[OF assms]
    by (simp add: sint_sbintrunc' signed_take_bit_int_eq_self)
  then show ?thesis using assms by (simp add: int32_of_number_def)
qed

lemma c_trunc_uint_range:
  assumes "- 1 < x" and "x < 2 ^ 32"
  shows "0 \<le> c_trunc x \<and> c_trunc x < 2 ^ 32"
proof (cases "x < 0")
  case True
  then have "\<lfloor>- x\<rfloor> = 0" using assms(1) by (simp add: floor_eq_iff)
  then show ?thesis using True by (simp add: c_trunc_def)
next
  case False
  then have "0 \<le> \<lfloor>x\<rfloor>" by simp
  moreover have "\<lfloor>x\<rfloor> < 2 ^ 32" using assms(2) by (simp add: floor_less_iff)
  ultimately show ?thesis using False by (simp add: c_trunc_def)
qed

lemma uint_of_number_in_range:
  assumes "- 1 < x" and "x < 2 ^ 32"
  shows "int (unat (uint_of_number E x)) = c_trunc x"
proof -
  have "uint (word_of_int (c_trunc x) :: 32 word) = c_trunc x"
    using c_trunc_uint_range[OF assms] by (simp add: uint_word_of_int)
  then show ?thesis using assms by (simp add: uint_of_number_def)
qed

lemma no_name_given:
  assumes "L = [] \<or> (\<exists>v rest. L = v # rest \<and> (\<forall>s. v \<noteq> LString s) \<and> (\<forall>x. v \<noteq> LNumber x))"
  shows "(if 1 \<le> length L \<and> lua_isstring L 1 then lua_tostring E L 1 else None) = None"
proof (cases L)
  case Nil
  then show ?thesis by simp
next
  case (Cons v rest)
  with assms have "(\<forall>s. v \<noteq> LString s) \<and> (\<forall>x. v \<noteq> LNumber x)" by auto
  then have "\<not> lua_isstring L 1"
    using Cons by (cases v) (simp_all add: lua_isstring_def index2adr_def)
  then show ?thesis by simp
qed

lemma vxDo_long_name:
  "128 \<le> length (c_str n) \<Longrightarrow> l_ExecuteLuaCommand E m (LString n # args) = Inl NameOverflow"
  unfolding l_ExecuteLuaCommand_slots name_of_string by (simp add: strcpy_def)

lemma vxReadLine_prompt:
  "l_vxReadLine E m (LString p # rest) =
     Inr \<lparr> retc = 1, pushed = [LString (sal_readline E (take 127 (c_str p)))],
           events = [ReadLine (take 127 (c_str p))], mem_after = m \<rparr>"
  by (simp add: l_vxReadLine_def lua_api strncpy_prompt_def Let_def)

section \<open>The get and set paths as a whole\<close>

text \<open>
  \<^verbatim>\<open>l_vxGet\<close> and \<^verbatim>\<open>l_vxSet\<close> on a stack whose first entry is a string: the plain
  name is copied and looked up, and only when that fails the name with a leading
  underscore is built in the same buffer and looked up.
\<close>

lemma strcpy_fits: "length (c_str n) \<le> 127 \<Longrightarrow> strcpy 128 n = Inr (c_str n)"
  by (simp add: strcpy_def)

lemma with_underscore_fits:
  "length (c_str n) \<le> 126 \<Longrightarrow> with_underscore (Some n) = Inr (CHR ''_'' # c_str n)"
  by (simp add: with_underscore_def strcpy_def strcat_def c_str_def)

lemma with_underscore_overflow:
  "127 \<le> length (c_str n) \<Longrightarrow> with_underscore (Some n) = Inl NameOverflow"
  by (simp add: with_underscore_def strcpy_def strcat_def c_str_def)

lemma vxGet_named:
  "l_vxGet E m (LString n # rest) =
     (case strcpy 128 n of
        Inl f \<Rightarrow> Inl f
      | Inr symbol_name \<Rightarrow>
          (case sysSymTbl E symbol_name of
             Some (a, t) \<Rightarrow>
               Inr \<lparr> retc = 1, pushed = [number_of_uint (m a)],
                     events = [SymFind symbol_name, MemRead a], mem_after = m \<rparr>
           | None \<Rightarrow>
               (case with_underscore (Some n) of
                  Inl f \<Rightarrow> Inl f
                | Inr symbol_name2 \<Rightarrow>
                    (case sysSymTbl E symbol_name2 of
                       Some (a, t) \<Rightarrow>
                         Inr \<lparr> retc = 1, pushed = [number_of_uint (m a)],
                               events = [SymFind symbol_name, SymFind symbol_name2, MemRead a],
                               mem_after = m \<rparr>
                     | None \<Rightarrow>
                         Inr \<lparr> retc = 0, pushed = [],
                               events = [SymFind symbol_name, SymFind symbol_name2,
                                         Printf (symbol_not_found symbol_name2)],
                               mem_after = m \<rparr>))))"
  by (simp add: l_vxGet_def lua_gettop_def lua_isstring_def lua_tostring_def index2adr_def
      split: sum.splits option.splits)

lemma vxSet_named:
  "l_vxSet E m (LString n # y # rest) =
     (case strcpy 128 n of
        Inl f \<Rightarrow> Inl f
      | Inr symbol_name \<Rightarrow>
          (case sysSymTbl E symbol_name of
             Some (a, t) \<Rightarrow>
               Inr \<lparr> retc = 0, pushed = [],
                     events = [SymFind symbol_name,
                               MemWrite a (uint_of_number E (lua_tonumber E (LString n # y # rest) 2))],
                     mem_after = m(a := uint_of_number E (lua_tonumber E (LString n # y # rest) 2)) \<rparr>
           | None \<Rightarrow>
               (case with_underscore (Some n) of
                  Inl f \<Rightarrow> Inl f
                | Inr symbol_name2 \<Rightarrow>
                    (case sysSymTbl E symbol_name2 of
                       Some (a, t) \<Rightarrow>
                         Inr \<lparr> retc = 0, pushed = [],
                               events = [SymFind symbol_name, SymFind symbol_name2,
                                         MemWrite a (uint_of_number E (lua_tonumber E (LString n # y # rest) 2))],
                               mem_after = m(a := uint_of_number E (lua_tonumber E (LString n # y # rest) 2)) \<rparr>
                     | None \<Rightarrow>
                         Inr \<lparr> retc = 0, pushed = [],
                               events = [SymFind symbol_name, SymFind symbol_name2,
                                         Printf (symbol_not_found symbol_name2)],
                               mem_after = m \<rparr>))))"
  by (simp add: l_vxSet_def lua_gettop_def lua_isstring_def lua_tostring_def index2adr_def Let_def
      split: sum.splits option.splits)

lemma vxGet_found:
  assumes "sysSymTbl E (c_str n) = Some (a, t)" and "length (c_str n) \<le> 127"
  shows "l_vxGet E m (LString n # rest) =
     Inr \<lparr> retc = 1, pushed = [number_of_uint (m a)],
           events = [SymFind (c_str n), MemRead a], mem_after = m \<rparr>"
  unfolding vxGet_named using assms by (simp add: strcpy_fits)

lemma vxSet_found:
  assumes "sysSymTbl E (c_str n) = Some (a, t)" and "length (c_str n) \<le> 127"
  shows "l_vxSet E m (LString n # y # rest) =
     Inr \<lparr> retc = 0, pushed = [],
           events = [SymFind (c_str n),
                     MemWrite a (uint_of_number E (lua_tonumber E (LString n # y # rest) 2))],
           mem_after = m(a := uint_of_number E (lua_tonumber E (LString n # y # rest) 2)) \<rparr>"
  unfolding vxSet_named using assms by (simp add: strcpy_fits)

text \<open>The same on the retry: the plain name is not in the table, the name with the underscore is.\<close>

lemma vxGet_found_underscore:
  assumes "sysSymTbl E (c_str n) = None"
    and "sysSymTbl E (CHR ''_'' # c_str n) = Some (a, t)"
    and "length (c_str n) \<le> 126"
  shows "l_vxGet E m (LString n # rest) =
     Inr \<lparr> retc = 1, pushed = [number_of_uint (m a)],
           events = [SymFind (c_str n), SymFind (CHR ''_'' # c_str n), MemRead a],
           mem_after = m \<rparr>"
proof -
  have f: "strcpy 128 n = Inr (c_str n)" using assms(3) by (simp add: strcpy_fits)
  have u: "with_underscore (Some n) = Inr (CHR ''_'' # c_str n)"
    using assms(3) by (rule with_underscore_fits)
  show ?thesis unfolding vxGet_named f u using assms(1,2) by simp
qed

lemma vxSet_found_underscore:
  assumes "sysSymTbl E (c_str n) = None"
    and "sysSymTbl E (CHR ''_'' # c_str n) = Some (a, t)"
    and "length (c_str n) \<le> 126"
  shows "l_vxSet E m (LString n # y # rest) =
     Inr \<lparr> retc = 0, pushed = [],
           events = [SymFind (c_str n), SymFind (CHR ''_'' # c_str n),
                     MemWrite a (uint_of_number E (lua_tonumber E (LString n # y # rest) 2))],
           mem_after = m(a := uint_of_number E (lua_tonumber E (LString n # y # rest) 2)) \<rparr>"
proof -
  have f: "strcpy 128 n = Inr (c_str n)" using assms(3) by (simp add: strcpy_fits)
  have u: "with_underscore (Some n) = Inr (CHR ''_'' # c_str n)"
    using assms(3) by (rule with_underscore_fits)
  show ?thesis unfolding vxSet_named f u using assms(1,2) by simp
qed

text \<open>Names that do not fit the 128 bytes of \<^verbatim>\<open>symbol_name\<close> on the get and set paths.\<close>

lemma vxGet_long_name:
  "128 \<le> length (c_str n) \<Longrightarrow> l_vxGet E m (LString n # rest) = Inl NameOverflow"
  unfolding vxGet_named by (simp add: strcpy_def)

lemma vxSet_long_name:
  "128 \<le> length (c_str n) \<Longrightarrow> l_vxSet E m (LString n # y # rest) = Inl NameOverflow"
  unfolding vxSet_named by (simp add: strcpy_def)

lemma vxGet_retry_overflow:
  assumes "length (c_str n) = 127" and "sysSymTbl E (c_str n) = None"
  shows "l_vxGet E m (LString n # rest) = Inl NameOverflow"
  unfolding vxGet_named using assms by (simp add: strcpy_fits with_underscore_overflow)

lemma lua_tonumber_second:
  "lua_tonumber E (x # LNumber v # rest) 2 = v"
  by (simp add: lua_tonumber_def index2adr_def)

lemmas test_target = test_env_def test_symtab_def zero_mem_def c_str_def

section \<open>Claims about the call path\<close>

text \<open>
  The header of the source file gives the limit the buffers are built for: a name of
  at most 127 characters. The theorems about a named call, get or set take a name
  within that limit; what a longer name does is the subject of C9.
\<close>

text \<open>
  C3. For every name \<open>n\<close> (within the 127 characters of the name buffer) that is in the
  symbol table under neither spelling, \<open>n\<close> itself and \<open>n\<close> with a leading underscore,
  \<^verbatim>\<open>vxDo(n, ...)\<close> with any further arguments pushes no value and returns the count 0,
  prints the diagnostic that names \<open>n\<close>, leaves memory as it was, and does nothing but
  that one lookup and that one print: no native code is called and no native memory
  is read or written.
\<close>

theorem call_unresolved_name_no_invocation:
  assumes "sysSymTbl E (c_str n) = None"
    and "sysSymTbl E (CHR ''_'' # c_str n) = None"
    and "length (c_str n) \<le> 127"
  shows "l_ExecuteLuaCommand E m (LString n # args) =
           Inr \<lparr> retc = 0, pushed = [],
                 events = [SymFind (c_str n), Printf (function_not_found (c_str n))],
                 mem_after = m \<rparr>
       \<and> \<not> touches_native (events_of (l_ExecuteLuaCommand E m (LString n # args)))"
proof -
  have "length (c_str n) < 128" using assms(3) by simp
  from vxDo_not_found[OF this assms(1)] show ?thesis
    by (simp add: events_of_def)
qed

theorem call_unresolved_name_no_invocation_witness:
  "sysSymTbl test_env (c_str ''nonexistent_fn'') = None
   \<and> sysSymTbl test_env (CHR ''_'' # c_str ''nonexistent_fn'') = None
   \<and> length (c_str ''nonexistent_fn'') \<le> 127
   \<and> l_ExecuteLuaCommand test_env zero_mem [LString ''nonexistent_fn'', LNumber 7] =
        Inr \<lparr> retc = 0, pushed = [],
              events = [SymFind ''nonexistent_fn'',
                        Printf (''Error: Function nonexistent_fn does not exist!'' @ [CHR 0x0A])],
              mem_after = zero_mem \<rparr>"
proof -
  have h1: "sysSymTbl test_env (c_str ''nonexistent_fn'') = None"
    by (simp add: test_target)
  have h2: "sysSymTbl test_env (CHR ''_'' # c_str ''nonexistent_fn'') = None"
    by (simp add: test_target)
  have h3: "length (c_str ''nonexistent_fn'') \<le> 127"
    by (simp add: c_str_def)
  have c: "c_str ''nonexistent_fn'' = ''nonexistent_fn''" by (simp add: c_str_def)
  show ?thesis
    using h1 h2 h3 call_unresolved_name_no_invocation[OF h1 h2 h3, of zero_mem "[LNumber 7]"]
    by (simp add: function_not_found_def c)
qed

text \<open>
  C8. For every call with more than 15 arguments after the name, the call does exactly
  what the same call with only the first 15 of them does: the arguments past the
  fifteenth have no influence on the lookup, on the slots passed, on the result or on
  what is printed, so nothing reports them. The write into the fifteen-slot array never
  falls outside it. Being a function of the stack, the outcome is the same for the same
  call.
\<close>

theorem call_excess_arguments_discarded:
  assumes "15 < length args"
  shows "l_ExecuteLuaCommand E m (nm # args) = l_ExecuteLuaCommand E m (nm # take 15 args)
       \<and> l_ExecuteLuaCommand E m (nm # args) \<noteq> Inl ArgOverflow"
  using vxDo_clip[OF assms] vxDo_no_ArgOverflow by simp

theorem call_excess_arguments_discarded_witness:
  "15 < length (replicate 20 (LNumber 3))
   \<and> l_ExecuteLuaCommand test_env zero_mem (LString ''LuaDecimalTest'' # replicate 20 (LNumber 3))
       = Inr \<lparr> retc = 1, pushed = [LNumber 42],
               events = [SymFind ''LuaDecimalTest'',
                         Invoke 0x1000 [3, 3, 3, 3, 3, 3, 3, 3, 3, 3, 3, 3, 3, 3, 0]],
               mem_after = zero_mem \<rparr>
   \<and> l_ExecuteLuaCommand test_env zero_mem (LString ''LuaDecimalTest'' # replicate 20 (LNumber 3))
       \<noteq> Inl ArgOverflow"
proof -
  have h: "15 < length (replicate 20 (LNumber 3))" by simp
  have e: "l_ExecuteLuaCommand test_env zero_mem
             (LString ''LuaDecimalTest'' # take 15 (replicate 20 (LNumber 3)))
         = Inr \<lparr> retc = 1, pushed = [LNumber 42],
                 events = [SymFind ''LuaDecimalTest'',
                           Invoke 0x1000 [3, 3, 3, 3, 3, 3, 3, 3, 3, 3, 3, 3, 3, 3, 0]],
                 mem_after = zero_mem \<rparr>"
    unfolding l_ExecuteLuaCommand_slots
    by (simp add: test_target slots_of_def upt_rec marshal_def lua_api strcpy_def
        int32_of_number_def c_trunc_def number_of_int_def)
  show ?thesis
    using h call_excess_arguments_discarded[OF h, of test_env zero_mem "LString ''LuaDecimalTest''"]
    unfolding e by simp
qed

text \<open>
  C6, as the code has it. The claim says that the call path resolves among code symbols
  only. The code never reads \<^verbatim>\<open>symbol_type\<close>: for a name (within the 127 characters
  of the buffer) that the symbol table holds, whatever the category \<open>t\<close> of the symbol,
  the address found is called with the fifteen slots, the value it returns is pushed
  as the one result, and nothing is printed. "Function does not exist" is reported
  only for a name the table does not hold (C3).
\<close>

theorem call_ignores_symbol_category:
  assumes "sysSymTbl E (c_str n) = Some (a, t)"
    and "length (c_str n) \<le> 127"
  shows "l_ExecuteLuaCommand E m (LString n # args) =
     Inr \<lparr> retc = 1,
           pushed = [number_of_int (fst (native_call E a (slots_of E (LString n # args)) m))],
           events = [SymFind (c_str n), Invoke a (slots_of E (LString n # args))],
           mem_after = snd (native_call E a (slots_of E (LString n # args)) m) \<rparr>"
proof -
  have "length (c_str n) < 128" using assms(2) by simp
  from vxDo_found[OF this assms(1)] show ?thesis .
qed

theorem call_ignores_symbol_category_witness:
  "sysSymTbl test_env (c_str ''LuaTestVariable'') = Some (0x2000, N_BSS)
   \<and> length (c_str ''LuaTestVariable'') \<le> 127
   \<and> l_ExecuteLuaCommand test_env zero_mem [LString ''LuaTestVariable'', LNumber 4] =
       Inr \<lparr> retc = 1, pushed = [LNumber 4],
             events = [SymFind ''LuaTestVariable'',
                       Invoke 0x2000 [4, 0, 0, 0, 0, 0, 0, 0, 0, 0, 0, 0, 0, 0, 0]],
             mem_after = zero_mem \<rparr>"
proof -
  have h1: "sysSymTbl test_env (c_str ''LuaTestVariable'') = Some (0x2000, N_BSS)"
    by (simp add: test_target)
  have h2: "length (c_str ''LuaTestVariable'') \<le> 127"
    by (simp add: c_str_def)
  have s: "slots_of test_env [LString ''LuaTestVariable'', LNumber 4]
             = [4, 0, 0, 0, 0, 0, 0, 0, 0, 0, 0, 0, 0, 0, 0]"
    by (simp add: slots_of_def upt_rec marshal_def lua_api test_env_def int32_of_number_def c_trunc_def)
  have c: "c_str ''LuaTestVariable'' = ''LuaTestVariable''" by (simp add: c_str_def)
  show ?thesis
    using h1 h2 call_ignores_symbol_category[OF h1 h2, of zero_mem "[LNumber 4]"]
    unfolding s c
    by (simp add: test_env_def number_of_int_def zero_mem_def)
qed

text \<open>
  The claim C6 fails on the variable of the source file: \<^verbatim>\<open>vxDo("LuaTestVariable")\<close>
  finds the data symbol, calls its address and returns one value.
\<close>

theorem call_data_symbol_counterexample:
  "sysSymTbl test_env ''LuaTestVariable'' = Some (0x2000, N_BSS)
   \<and> l_ExecuteLuaCommand test_env zero_mem [LString ''LuaTestVariable''] =
       Inr \<lparr> retc = 1, pushed = [LNumber 0],
             events = [SymFind ''LuaTestVariable'',
                       Invoke 0x2000 [0, 0, 0, 0, 0, 0, 0, 0, 0, 0, 0, 0, 0, 0, 0]],
             mem_after = zero_mem \<rparr>"
  unfolding l_ExecuteLuaCommand_slots
  by (simp add: test_target slots_of_def upt_rec lua_api strcpy_def number_of_int_def)

text \<open>
  C10, as the code has it. \<^verbatim>\<open>lua_isstring\<close> accepts a number as well as a string, so
  the name stays unset when the stack is empty or its first entry is neither a string
  nor a number. Then the lookup is still made, with the placeholder text
  \<^verbatim>\<open>"no function"\<close> (quotes included) as the name: when the table does not hold that
  name the diagnostic names the placeholder and no value is returned, and when it does
  the address found is called like any other.
\<close>

theorem call_without_name_uses_placeholder:
  assumes "L = [] \<or> (\<exists>v rest. L = v # rest \<and> (\<forall>s. v \<noteq> LString s) \<and> (\<forall>x. v \<noteq> LNumber x))"
  shows "l_ExecuteLuaCommand E m L =
     (case sysSymTbl E no_function of
        None \<Rightarrow>
          Inr \<lparr> retc = 0, pushed = [],
                events = [SymFind no_function, Printf (function_not_found no_function)],
                mem_after = m \<rparr>
      | Some (a, t) \<Rightarrow>
          Inr \<lparr> retc = 1,
                pushed = [number_of_int (fst (native_call E a (slots_of E L) m))],
                events = [SymFind no_function, Invoke a (slots_of E L)],
                mem_after = snd (native_call E a (slots_of E L) m) \<rparr>)"
  unfolding l_ExecuteLuaCommand_slots no_name_given[OF assms]
  by (simp split: option.splits)

theorem call_without_name_uses_placeholder_witness:
  "l_ExecuteLuaCommand test_env zero_mem [LTable, LNumber 1] =
        Inr \<lparr> retc = 0, pushed = [],
              events = [SymFind (CHR 0x22 # ''no function'' @ [CHR 0x22]),
                        Printf (''Error: Function '' @ [CHR 0x22] @ ''no function'' @ [CHR 0x22]
                                @ '' does not exist!'' @ [CHR 0x0A])],
              mem_after = zero_mem \<rparr>
   \<and> l_ExecuteLuaCommand test_env zero_mem [] =
        Inr \<lparr> retc = 0, pushed = [],
              events = [SymFind (CHR 0x22 # ''no function'' @ [CHR 0x22]),
                        Printf (''Error: Function '' @ [CHR 0x22] @ ''no function'' @ [CHR 0x22]
                                @ '' does not exist!'' @ [CHR 0x0A])],
              mem_after = zero_mem \<rparr>"
proof -
  have h1: "[LTable, LNumber 1] = []
      \<or> (\<exists>v rest. [LTable, LNumber 1] = v # rest \<and> (\<forall>s. v \<noteq> LString s) \<and> (\<forall>x. v \<noteq> LNumber x))"
    by simp
  have h2: "([] :: lua_State) = []
      \<or> (\<exists>v rest. ([] :: lua_State) = v # rest \<and> (\<forall>s. v \<noteq> LString s) \<and> (\<forall>x. v \<noteq> LNumber x))"
    by simp
  have n: "sysSymTbl test_env no_function = None"
    by (simp add: test_target no_function_def)
  show ?thesis
    using call_without_name_uses_placeholder[OF h1, of test_env zero_mem]
      call_without_name_uses_placeholder[OF h2, of test_env zero_mem]
    by (simp add: n) (simp add: no_function_def function_not_found_def)
qed

text \<open>
  The claim C10 fails for a first argument that is a number: \<^verbatim>\<open>vxDo(5)\<close> looks up the
  name \<^verbatim>\<open>5\<close> and the diagnostic names \<^verbatim>\<open>5\<close>, not the placeholder.
\<close>

theorem call_number_as_name_counterexample:
  "l_ExecuteLuaCommand test_env zero_mem [LNumber 5] =
     Inr \<lparr> retc = 0, pushed = [],
           events = [SymFind ''5'', Printf (''Error: Function 5 does not exist!'' @ [CHR 0x0A])],
           mem_after = zero_mem \<rparr>
   \<and> ''5'' \<noteq> no_function"
  unfolding l_ExecuteLuaCommand_slots
  by (simp add: test_target lua_api strcpy_def function_not_found_def no_function_def)

text \<open>
  C1 at fifteen arguments. \<^verbatim>\<open>nArgs\<close> counts the name and is clipped to 15, so the loop
  fills the slots 0 to 13 only: of the arguments 1, 2, ..., 15 the callee receives
  1, ..., 14 and a zero in slot 14 (the test target returns the sum of its slots, 105).
\<close>

theorem fifteenth_argument_is_dropped:
  "l_ExecuteLuaCommand test_env zero_mem
        (LString ''LuaDecimalTest'' # map LNumber [1, 2, 3, 4, 5, 6, 7, 8, 9, 10, 11, 12, 13, 14, 15]) =
      Inr \<lparr> retc = 1, pushed = [LNumber 105],
            events = [SymFind ''LuaDecimalTest'',
                      Invoke 0x1000 [1, 2, 3, 4, 5, 6, 7, 8, 9, 10, 11, 12, 13, 14, 0]],
            mem_after = zero_mem \<rparr>"
  unfolding l_ExecuteLuaCommand_slots
  by (simp add: test_target slots_of_def upt_rec marshal_def lua_api strcpy_def int32_of_number_def
      c_trunc_def number_of_int_def)

text \<open>
  C7 at a string that reads as a number. \<^verbatim>\<open>lua_isnumber\<close> is tested before
  \<^verbatim>\<open>lua_isstring\<close> and holds for the string \<^verbatim>\<open>"10"\<close>: the slot receives the
  integer 10, not the address of the string (\<open>0x8002\<close> in the test target), while the
  string \<^verbatim>\<open>"ten"\<close> beside it is passed by its address \<open>0x8003\<close>.
\<close>

theorem numeric_string_passed_as_number:
  "l_ExecuteLuaCommand test_env zero_mem [LString ''LuaDecimalTest'', LString ''10'', LString ''ten''] =
      Inr \<lparr> retc = 1, pushed = [LNumber 32781],
            events = [SymFind ''LuaDecimalTest'',
                      Invoke 0x1000 [10, 0x8003, 0, 0, 0, 0, 0, 0, 0, 0, 0, 0, 0, 0, 0]],
            mem_after = zero_mem \<rparr>
   \<and> str_addr test_env ''10'' = 0x8002"
  unfolding l_ExecuteLuaCommand_slots
  by (simp add: test_target slots_of_def upt_rec marshal_def lua_api strcpy_def int32_of_number_def
      c_trunc_def number_of_int_def)

text \<open>
  C9 at a name of 128 characters. \<^verbatim>\<open>strcpy\<close> copies the name and its terminator, 129
  bytes, into the 128 bytes of \<^verbatim>\<open>symbol_name\<close>: the name is not truncated.
\<close>

theorem long_name_overflows_buffer:
  "l_ExecuteLuaCommand test_env zero_mem [LString (replicate 128 CHR ''a'')] = Inl NameOverflow"
  by (rule vxDo_long_name) (simp add: c_str_def)

section \<open>Claims about the get and set paths\<close>

text \<open>
  C2. For every symbol (of any category, so every data symbol) that \<^verbatim>\<open>vxGet\<close> and
  \<^verbatim>\<open>vxSet\<close> resolve for a name \<open>n\<close>, at an address \<open>a\<close>: either the symbol table holds
  \<open>n\<close> itself (\<open>n\<close> within the 127 characters of the buffer), or it does not hold \<open>n\<close>
  and holds \<open>n\<close> with a leading underscore (\<open>n\<close> of at most 126 characters, so that
  the underscore fits as well). In both cases \<^verbatim>\<open>vxGet(n)\<close> returns as a number the
  word memory holds at \<open>a\<close>; \<^verbatim>\<open>vxSet(n, y)\<close> returns no value and stores at \<open>a\<close> the
  word \<open>v\<close> that \<open>y\<close> converts to (its numeric value converted to \<^verbatim>\<open>unsigned int\<close>),
  and a \<^verbatim>\<open>vxGet(n)\<close> after it returns \<open>v\<close>. The lookups made are the plain name
  alone on a direct hit, and the plain name followed by the name with the underscore
  on the retry. For a number \<open>y\<close> whose truncation fits the 32-bit word
  (\<open>-1 < y < 2^32\<close>), \<open>v\<close> is \<open>y\<close> with its fraction discarded.
\<close>

theorem get_reads_and_set_then_get:
  assumes "(sysSymTbl E (c_str n) = Some (a, t) \<and> length (c_str n) \<le> 127)
         \<or> (sysSymTbl E (c_str n) = None \<and> sysSymTbl E (CHR ''_'' # c_str n) = Some (a, t)
            \<and> length (c_str n) \<le> 126)"
  shows "(let finds = (if sysSymTbl E (c_str n) = None
                       then [SymFind (c_str n), SymFind (CHR ''_'' # c_str n)]
                       else [SymFind (c_str n)]);
              v = uint_of_number E (lua_tonumber E [LString n, y] 2)
          in l_vxGet E m [LString n] =
               Inr \<lparr> retc = 1, pushed = [LNumber (real (unat (m a)))],
                     events = finds @ [MemRead a], mem_after = m \<rparr>
           \<and> l_vxSet E m [LString n, y] =
               Inr \<lparr> retc = 0, pushed = [],
                     events = finds @ [MemWrite a v], mem_after = m(a := v) \<rparr>
           \<and> l_vxGet E (m(a := v)) [LString n] =
               Inr \<lparr> retc = 1, pushed = [LNumber (real (unat v))],
                     events = finds @ [MemRead a], mem_after = m(a := v) \<rparr>
           \<and> (\<forall>x. y = LNumber x \<and> - 1 < x \<and> x < 2 ^ 32 \<longrightarrow>
                  real (unat v) = real_of_int (c_trunc x)))"
proof -
  let ?v = "uint_of_number E (lua_tonumber E [LString n, y] 2)"
  have r: "real (unat ?v) = real_of_int (c_trunc x)"
    if "y = LNumber x" "- 1 < x" "x < 2 ^ 32" for x
  proof -
    have "int (unat (uint_of_number E x)) = c_trunc x"
      using that(2,3) by (rule uint_of_number_in_range)
    then have "real_of_int (int (unat (uint_of_number E x))) = real_of_int (c_trunc x)"
      by simp
    then show ?thesis using that(1) by (simp add: lua_tonumber_second)
  qed
  from assms show ?thesis
  proof
    assume plain: "sysSymTbl E (c_str n) = Some (a, t) \<and> length (c_str n) \<le> 127"
    then have p1: "sysSymTbl E (c_str n) = Some (a, t)" and p2: "length (c_str n) \<le> 127"
      by simp_all
    have g: "l_vxGet E m' [LString n] =
           Inr \<lparr> retc = 1, pushed = [LNumber (real (unat (m' a)))],
                 events = [SymFind (c_str n), MemRead a], mem_after = m' \<rparr>" for m'
      using vxGet_found[OF p1 p2, of m' "[]"] by (simp add: number_of_uint_def)
    have s: "l_vxSet E m [LString n, y] =
       Inr \<lparr> retc = 0, pushed = [],
             events = [SymFind (c_str n), MemWrite a ?v], mem_after = m(a := ?v) \<rparr>"
      using vxSet_found[OF p1 p2, of m y "[]"] .
    show ?thesis using g s r p1 by (simp add: Let_def)
  next
    assume retry: "sysSymTbl E (c_str n) = None \<and> sysSymTbl E (CHR ''_'' # c_str n) = Some (a, t)
            \<and> length (c_str n) \<le> 126"
    then have q1: "sysSymTbl E (c_str n) = None"
      and q2: "sysSymTbl E (CHR ''_'' # c_str n) = Some (a, t)"
      and q3: "length (c_str n) \<le> 126"
      by simp_all
    have g: "l_vxGet E m' [LString n] =
           Inr \<lparr> retc = 1, pushed = [LNumber (real (unat (m' a)))],
                 events = [SymFind (c_str n), SymFind (CHR ''_'' # c_str n), MemRead a],
                 mem_after = m' \<rparr>" for m'
      using vxGet_found_underscore[OF q1 q2 q3, of m' "[]"] by (simp add: number_of_uint_def)
    have s: "l_vxSet E m [LString n, y] =
       Inr \<lparr> retc = 0, pushed = [],
             events = [SymFind (c_str n), SymFind (CHR ''_'' # c_str n), MemWrite a ?v],
             mem_after = m(a := ?v) \<rparr>"
      using vxSet_found_underscore[OF q1 q2 q3, of m y "[]"] .
    show ?thesis using g s r q1 by (simp add: Let_def)
  qed
qed

theorem get_reads_and_set_then_get_witness:
  "l_vxGet test_env zero_mem [LString ''LuaTestVariable''] =
       Inr \<lparr> retc = 1, pushed = [LNumber 0],
             events = [SymFind ''LuaTestVariable'', MemRead 0x2000], mem_after = zero_mem \<rparr>
   \<and> l_vxSet test_env zero_mem [LString ''LuaTestVariable'', LNumber 321] =
       Inr \<lparr> retc = 0, pushed = [],
             events = [SymFind ''LuaTestVariable'', MemWrite 0x2000 321],
             mem_after = zero_mem(0x2000 := 321) \<rparr>
   \<and> l_vxGet test_env (zero_mem(0x2000 := 321)) [LString ''LuaTestVariable''] =
       Inr \<lparr> retc = 1, pushed = [LNumber 321],
             events = [SymFind ''LuaTestVariable'', MemRead 0x2000],
             mem_after = zero_mem(0x2000 := 321) \<rparr>
   \<and> l_vxGet test_env zero_mem [LString ''counter''] =
       Inr \<lparr> retc = 1, pushed = [LNumber 0],
             events = [SymFind ''counter'', SymFind ''_counter'', MemRead 0x2004],
             mem_after = zero_mem \<rparr>
   \<and> l_vxSet test_env zero_mem [LString ''counter'', LNumber 321] =
       Inr \<lparr> retc = 0, pushed = [],
             events = [SymFind ''counter'', SymFind ''_counter'', MemWrite 0x2004 321],
             mem_after = zero_mem(0x2004 := 321) \<rparr>
   \<and> l_vxGet test_env (zero_mem(0x2004 := 321)) [LString ''counter''] =
       Inr \<lparr> retc = 1, pushed = [LNumber 321],
             events = [SymFind ''counter'', SymFind ''_counter'', MemRead 0x2004],
             mem_after = zero_mem(0x2004 := 321) \<rparr>"
proof -
  have c1: "c_str ''LuaTestVariable'' = ''LuaTestVariable''" by (simp add: c_str_def)
  have c2: "c_str ''counter'' = ''counter''" by (simp add: c_str_def)
  have t1: "sysSymTbl test_env ''LuaTestVariable'' = Some (0x2000, N_BSS)"
    by (simp add: test_target)
  have t2: "sysSymTbl test_env ''counter'' = None" by (simp add: test_target)
  have t3: "sysSymTbl test_env ''_counter'' = Some (0x2004, N_DATA)" by (simp add: test_target)
  have h1: "(sysSymTbl test_env (c_str ''LuaTestVariable'') = Some (0x2000, N_BSS)
             \<and> length (c_str ''LuaTestVariable'') \<le> 127)
         \<or> (sysSymTbl test_env (c_str ''LuaTestVariable'') = None
            \<and> sysSymTbl test_env (CHR ''_'' # c_str ''LuaTestVariable'') = Some (0x2000, N_BSS)
            \<and> length (c_str ''LuaTestVariable'') \<le> 126)"
    unfolding c1 using t1 by simp
  have h2: "(sysSymTbl test_env (c_str ''counter'') = Some (0x2004, N_DATA)
             \<and> length (c_str ''counter'') \<le> 127)
         \<or> (sysSymTbl test_env (c_str ''counter'') = None
            \<and> sysSymTbl test_env (CHR ''_'' # c_str ''counter'') = Some (0x2004, N_DATA)
            \<and> length (c_str ''counter'') \<le> 126)"
    unfolding c2 using t2 t3 by simp
  have v1: "uint_of_number test_env (lua_tonumber test_env [LString ''LuaTestVariable'', LNumber 321] 2) = 321"
    by (simp add: uint_of_number_def lua_tonumber_def index2adr_def c_trunc_def)
  have v2: "uint_of_number test_env (lua_tonumber test_env [LString ''counter'', LNumber 321] 2) = 321"
    by (simp add: uint_of_number_def lua_tonumber_def index2adr_def c_trunc_def)
  have z: "unat (zero_mem a) = 0" for a :: addr by (simp add: zero_mem_def)
  show ?thesis
    using get_reads_and_set_then_get[OF h1, of "LNumber 321" zero_mem]
      get_reads_and_set_then_get[OF h2, of "LNumber 321" zero_mem]
    unfolding c1 c2 Let_def v1 v2 z by (simp add: t1 t2)
qed

text \<open>
  C5, as the code has it. \<^verbatim>\<open>vxSet\<close> with fewer than two arguments is an immediate
  no-op: no symbol is looked up, memory is left as it was and no value is returned.
  The code prints nothing on this path, so no diagnostic is produced either.
\<close>

theorem set_without_value_is_silent:
  assumes "length L < 2"
  shows "l_vxSet E m L = Inr \<lparr> retc = 0, pushed = [], events = [], mem_after = m \<rparr>"
  using assms by (simp add: l_vxSet_def lua_gettop_def Let_def)

theorem set_without_value_is_silent_witness:
  "length [LString ''LuaTestVariable''] < 2
   \<and> l_vxSet test_env zero_mem [LString ''LuaTestVariable''] =
        Inr \<lparr> retc = 0, pushed = [], events = [], mem_after = zero_mem \<rparr>"
proof -
  have h: "length [LString ''LuaTestVariable''] < 2" by simp
  show ?thesis using h set_without_value_is_silent[OF h, of test_env zero_mem] by simp
qed

text \<open>
  The claim C5 promises a diagnostic that reports the missing value: \<^verbatim>\<open>vxSet\<close> with
  the name alone prints nothing.
\<close>

theorem set_without_value_counterexample:
  "printfs (events_of (l_vxSet test_env zero_mem [LString ''LuaTestVariable''])) = []"
  by (simp add: l_vxSet_def lua_gettop_def Let_def events_of_def)

text \<open>
  C4, as the code has it. For a name \<open>n\<close> of at most 126 characters (so that the name
  and the underscore fit the buffer): \<^verbatim>\<open>vxGet\<close> and \<^verbatim>\<open>vxSet\<close> look up \<open>n\<close> first
  and, only if that fails, \<open>n\<close> with one underscore in front, once; they report that
  the symbol does not exist only when both lookups fail. \<^verbatim>\<open>vxDo\<close> looks up \<open>n\<close> alone
  (\<^verbatim>\<open>LEADING_UNDERSCORE\<close> is undefined), never retries, and reports that the function
  does not exist as soon as that one lookup fails.
\<close>

theorem lookup_order_per_path:
  assumes "length (c_str n) \<le> 126"
  shows "sym_finds (events_of (l_vxGet E m (LString n # rest))) =
           (if sysSymTbl E (c_str n) = None then [c_str n, CHR ''_'' # c_str n] else [c_str n])
       \<and> sym_finds (events_of (l_vxSet E m (LString n # y # rest))) =
           (if sysSymTbl E (c_str n) = None then [c_str n, CHR ''_'' # c_str n] else [c_str n])
       \<and> sym_finds (events_of (l_ExecuteLuaCommand E m (LString n # rest))) = [c_str n]
       \<and> printfs (events_of (l_vxGet E m (LString n # rest))) =
           (if sysSymTbl E (c_str n) = None \<and> sysSymTbl E (CHR ''_'' # c_str n) = None
            then [symbol_not_found (CHR ''_'' # c_str n)] else [])
       \<and> printfs (events_of (l_vxSet E m (LString n # y # rest))) =
           (if sysSymTbl E (c_str n) = None \<and> sysSymTbl E (CHR ''_'' # c_str n) = None
            then [symbol_not_found (CHR ''_'' # c_str n)] else [])
       \<and> printfs (events_of (l_ExecuteLuaCommand E m (LString n # rest))) =
           (if sysSymTbl E (c_str n) = None then [function_not_found (c_str n)] else [])"
proof -
  have f: "strcpy 128 n = Inr (c_str n)" using assms by (simp add: strcpy_fits)
  have u: "with_underscore (Some n) = Inr (CHR ''_'' # c_str n)"
    using assms by (rule with_underscore_fits)
  have get: "sym_finds (events_of (l_vxGet E m (LString n # rest))) =
           (if sysSymTbl E (c_str n) = None then [c_str n, CHR ''_'' # c_str n] else [c_str n])"
    "printfs (events_of (l_vxGet E m (LString n # rest))) =
           (if sysSymTbl E (c_str n) = None \<and> sysSymTbl E (CHR ''_'' # c_str n) = None
            then [symbol_not_found (CHR ''_'' # c_str n)] else [])"
    unfolding vxGet_named f u by (auto simp: events_of_def split: option.splits)
  have set: "sym_finds (events_of (l_vxSet E m (LString n # y # rest))) =
           (if sysSymTbl E (c_str n) = None then [c_str n, CHR ''_'' # c_str n] else [c_str n])"
    "printfs (events_of (l_vxSet E m (LString n # y # rest))) =
           (if sysSymTbl E (c_str n) = None \<and> sysSymTbl E (CHR ''_'' # c_str n) = None
            then [symbol_not_found (CHR ''_'' # c_str n)] else [])"
    unfolding vxSet_named f u by (auto simp: events_of_def split: option.splits)
  have call: "sym_finds (events_of (l_ExecuteLuaCommand E m (LString n # rest))) = [c_str n]"
    "printfs (events_of (l_ExecuteLuaCommand E m (LString n # rest))) =
           (if sysSymTbl E (c_str n) = None then [function_not_found (c_str n)] else [])"
    unfolding l_ExecuteLuaCommand_slots name_of_string
    by (auto simp: f events_of_def split: option.splits)
  show ?thesis using get set call by simp
qed

theorem lookup_order_per_path_witness:
  "length (c_str ''counter'') \<le> 126
   \<and> sym_finds (events_of (l_vxGet test_env zero_mem [LString ''counter''])) = [''counter'', ''_counter'']
   \<and> sym_finds (events_of (l_vxSet test_env zero_mem [LString ''counter'', LNumber 1])) = [''counter'', ''_counter'']
   \<and> sym_finds (events_of (l_ExecuteLuaCommand test_env zero_mem [LString ''counter''])) = [''counter'']
   \<and> printfs (events_of (l_vxGet test_env zero_mem [LString ''counter''])) = []
   \<and> printfs (events_of (l_vxSet test_env zero_mem [LString ''counter'', LNumber 1])) = []
   \<and> printfs (events_of (l_ExecuteLuaCommand test_env zero_mem [LString ''counter''])) =
        [''Error: Function counter does not exist!'' @ [CHR 0x0A]]"
proof -
  have h: "length (c_str ''counter'') \<le> 126" by (simp add: c_str_def)
  have c: "c_str ''counter'' = ''counter''" by (simp add: c_str_def)
  have t1: "sysSymTbl test_env ''counter'' = None" by (simp add: test_target)
  have t2: "sysSymTbl test_env ''_counter'' = Some (0x2004, N_DATA)" by (simp add: test_target)
  show ?thesis
    using h lookup_order_per_path[OF h, of test_env zero_mem "[]" "LNumber 1"]
    unfolding c by (simp add: t1 t2 function_not_found_def)
qed

text \<open>
  The claim C4 fails on the call path: the table holds \<^verbatim>\<open>_LuaStringTest\<close>, and
  \<^verbatim>\<open>vxDo("LuaStringTest", "Hello You!")\<close> looks up the plain name only and reports
  that the function does not exist.
\<close>

theorem call_no_underscore_retry_counterexample:
  "sysSymTbl test_env ''_LuaStringTest'' = Some (0x1100, N_TEXT)
   \<and> l_ExecuteLuaCommand test_env zero_mem [LString ''LuaStringTest'', LString ''Hello You!''] =
       Inr \<lparr> retc = 0, pushed = [],
             events = [SymFind ''LuaStringTest'',
                       Printf (''Error: Function LuaStringTest does not exist!'' @ [CHR 0x0A])],
             mem_after = zero_mem \<rparr>"
  unfolding l_ExecuteLuaCommand_slots
  by (simp add: test_target lua_api strcpy_def function_not_found_def)

end
